theory Spec2Isabelle
  imports Complex_Main
begin

section \<open>JavaScript strings and arrays\<close>

text \<open>
  The forum is a React front end written in TypeScript.  Its strings are modelled as
  \<^typ>\<open>string\<close>, one \<^typ>\<open>char\<close> per code unit of the Latin-1 range; the built-in
  string and array methods the pages call are written out below with the behaviour the
  language standard gives them on that range.
\<close>

text \<open>\<^verbatim>\<open>String.prototype.trim\<close> strips white space and line terminators from both
  ends: TAB, LF, VT, FF, CR, SPACE and NBSP are the ones below code unit 256.\<close>

definition isWhiteSpace :: "char \<Rightarrow> bool" where
  "isWhiteSpace c =
     (c = CHR 0x09 \<or> c = CHR 0x0A \<or> c = CHR 0x0B \<or> c = CHR 0x0C \<or> c = CHR 0x0D \<or>
      c = CHR 0x20 \<or> c = CHR 0xA0)"

definition trim :: "string \<Rightarrow> string" where
  "trim s = rev (dropWhile isWhiteSpace (rev (dropWhile isWhiteSpace s)))"

text \<open>\<^verbatim>\<open>String.prototype.toLowerCase\<close>: the letters A to Z and the accented capitals
  0xC0 to 0xDE (the multiplication sign 0xD7 apart) move up by 32.\<close>

definition lowerChar :: "char \<Rightarrow> char" where
  "lowerChar c =
     (let n = (of_char c :: nat) in
      if (65 \<le> n \<and> n \<le> 90) \<or> (192 \<le> n \<and> n \<le> 222 \<and> n \<noteq> 215)
      then char_of (n + 32) else c)"

definition toLowerCase :: "string \<Rightarrow> string" where
  "toLowerCase s = map lowerChar s"

text \<open>\<^verbatim>\<open>s.includes(t)\<close>: \<open>t\<close> occurs in \<open>s\<close> as a contiguous substring.\<close>

primrec str_includes :: "string \<Rightarrow> string \<Rightarrow> bool" where
  "str_includes [] t = (t = [])"
| "str_includes (c # cs) t = (take (length t) (c # cs) = t \<or> str_includes cs t)"

text \<open>\<^verbatim>\<open>s.split(sep)\<close> for a one-character separator: the pieces between the
  separators, empty pieces kept, so that the empty string splits into one empty piece.\<close>

primrec str_split :: "char \<Rightarrow> string \<Rightarrow> string list" where
  "str_split sep [] = [[]]"
| "str_split sep (c # cs) =
     (if c = sep then [] # str_split sep cs
      else (c # hd (str_split sep cs)) # tl (str_split sep cs))"

text \<open>\<^verbatim>\<open>ws.join(sep)\<close>.\<close>

fun arr_join :: "string \<Rightarrow> string list \<Rightarrow> string" where
  "arr_join sep [] = []"
| "arr_join sep [w] = w"
| "arr_join sep (w # ws) = w @ sep @ arr_join sep ws"

text \<open>\<^verbatim>\<open>xs.slice(0, end)\<close> for an integral \<open>end\<close>: a negative \<open>end\<close> counts from
  the back of the array, and the result is clamped to the array.\<close>

definition arr_slice0 :: "'a list \<Rightarrow> int \<Rightarrow> 'a list" where
  "arr_slice0 xs e =
     (let len = int (length xs);
          final = (if e < 0 then max (len + e) 0 else min e len)
      in take (nat final) xs)"




section \<open>View helpers of the home feed\<close>

text \<open>
  \<^verbatim>\<open>
  const truncateText = (text: string, maxWords: number) => {
    const words = text.split(" ");
    if (words.length <= maxWords) return text;
    return words.slice(0, maxWords).join(" ") + "...";
  };
  \<close>
  \<open>maxWords\<close> is a JavaScript number; the model takes the integral ones.
\<close>

definition truncateText :: "string \<Rightarrow> int \<Rightarrow> string" where
  "truncateText text maxWords =
     (let ws = str_split CHR '' '' text in
      if int (length ws) \<le> maxWords then text
      else arr_join '' '' (arr_slice0 ws maxWords) @ ''...'')"


section \<open>The record store\<close>

text \<open>
  The pages keep their data in two tables of a hosted record store, \<open>posts\<close> and
  \<open>comments\<close>, reached through a client library.  A row is a record of its columns;
  a column that may hold \<open>null\<close> has an option type.  Time stamps are milliseconds
  since the epoch.
\<close>

type_synonym ident = string
type_synonym timestamp = int

record post =
  id_post :: ident
  title :: string
  content :: "string option"
  image_url :: "string option"
  upvotes :: int
  created_at :: "timestamp option"
  secret_key :: "string option"
  user_id :: string
  flags :: "string list option"
  repost_id :: "ident option"

record comment =
  id_comment :: ident
  post_id :: "ident option"
  content_comment :: string
  created_at_comment :: "timestamp option"
  user_id_comment :: string

record store =
  posts :: "post list"
  comments :: "comment list"

text \<open>
  Every call of the client answers with data or with an error.  The answer is an input
  of the model: an insert is answered by \<open>None\<close> (an error) or by the identifier and
  the clock reading the store gave the new row; an update, a delete and a select are
  answered by \<open>False\<close> (an error) or \<open>True\<close>.  A call answered by an error leaves the
  tables as they were.
\<close>

text \<open>
  Modelled from the spec: the declaration of the \<open>posts\<close> table is not among the
  sources, so the columns the insert leaves out are filled as the data model says
  (\<open>id\<close> assigned by the store, \<open>upvotes\<close> initialised to 0, \<open>created_at\<close> assigned at
  creation).  The arguments are the columns \<^verbatim>\<open>CreatePost\<close> sends:
  \<^verbatim>\<open>title, content, image_url, secret_key, user_id, repost_id, flags\<close>.
\<close>

definition insert_post ::
  "string \<Rightarrow> string \<Rightarrow> string \<Rightarrow> string \<Rightarrow> string \<Rightarrow> ident option \<Rightarrow> string list \<Rightarrow>
   (ident \<times> timestamp) option \<Rightarrow> store \<Rightarrow> post option \<times> store" where
  "insert_post t c i k u r f reply db =
     (case reply of
        None \<Rightarrow> (None, db)
      | Some (new_id, now) \<Rightarrow>
          (let row = \<lparr>id_post = new_id, title = t, content = Some c, image_url = Some i,
                       upvotes = 0, created_at = Some now, secret_key = Some k,
                       user_id = u, flags = Some f, repost_id = r\<rparr>
           in (Some row, db\<lparr>posts := posts db @ [row]\<rparr>)))"

text \<open>
  Modelled from the spec: the \<open>comments\<close> table likewise; the columns sent are
  \<^verbatim>\<open>post_id, content, user_id\<close>.
\<close>

definition insert_comment ::
  "ident option \<Rightarrow> string \<Rightarrow> string \<Rightarrow> (ident \<times> timestamp) option \<Rightarrow> store \<Rightarrow>
   comment option \<times> store" where
  "insert_comment p c u reply db =
     (case reply of
        None \<Rightarrow> (None, db)
      | Some (new_id, now) \<Rightarrow>
          (let row = \<lparr>id_comment = new_id, post_id = p, content_comment = c,
                       created_at_comment = Some now, user_id_comment = u\<rparr>
           in (Some row, db\<lparr>comments := comments db @ [row]\<rparr>)))"

text \<open>\<^verbatim>\<open>from("posts").update(fields).eq("id", i)\<close>: every row whose \<open>id\<close> is \<open>i\<close>
  gets the fields.\<close>

definition update_posts :: "(post \<Rightarrow> post) \<Rightarrow> ident \<Rightarrow> bool \<Rightarrow> store \<Rightarrow> bool \<times> store" where
  "update_posts f i ok db =
     (if ok then (True, db\<lparr>posts := map (\<lambda>r. if id_post r = i then f r else r) (posts db)\<rparr>)
      else (False, db))"

text \<open>\<^verbatim>\<open>from("posts").delete().eq("id", i)\<close>.\<close>

definition delete_posts :: "ident \<Rightarrow> bool \<Rightarrow> store \<Rightarrow> bool \<times> store" where
  "delete_posts i ok db =
     (if ok then (True, db\<lparr>posts := filter (\<lambda>r. id_post r \<noteq> i) (posts db)\<rparr>)
      else (False, db))"

text \<open>\<^verbatim>\<open>from("comments").delete().eq("post_id", i)\<close>.\<close>

definition delete_comments :: "ident \<Rightarrow> bool \<Rightarrow> store \<Rightarrow> bool \<times> store" where
  "delete_comments i ok db =
     (if ok then (True, db\<lparr>comments := filter (\<lambda>c. post_id c \<noteq> Some i) (comments db)\<rparr>)
      else (False, db))"

text \<open>\<^verbatim>\<open>from("posts").select("*").eq("id", i).single()\<close>: the one row whose \<open>id\<close> is
  \<open>i\<close>; no row, or more than one, is an error.\<close>

definition select_post :: "ident \<Rightarrow> bool \<Rightarrow> store \<Rightarrow> post option" where
  "select_post i ok db =
     (if ok then (case filter (\<lambda>r. id_post r = i) (posts db) of [r] \<Rightarrow> Some r | _ \<Rightarrow> None)
      else None)"

section \<open>What a handler does besides the store\<close>

text \<open>A handler reports to the user and to the console; these reports are collected
  in the order they happen.  The three ways an operation is refused are the error
  kinds: a missing title, a wrong secret key, a failed call of the store.\<close>

datatype effect = Alert string | ConsoleError string | Navigate string

datatype error = ValidationError | UnauthorizedError | StoreError

section \<open>Creating a post\<close>

record create_form =
  title_cf :: string
  content_cf :: string
  image_url_cf :: string
  secret_key_cf :: string
  flags_cf :: "string list"

text \<open>
  \<^verbatim>\<open>
  const handleSubmit = async (e: React.FormEvent) => {
    e.preventDefault();
    if (!formData.title.trim()) { alert("Title is required"); return; }
    setLoading(true);
    try {
      const userId = Math.random().toString(36).substring(2, 15);
      const { data, error } = await supabase.from("posts")
        .insert([{ title: formData.title, content: formData.content,
                   image_url: formData.image_url, secret_key: formData.secret_key,
                   user_id: userId, repost_id: null, flags: formData.flags }])
        .select().single();
      if (error) throw error;
      navigate(`/post/${data.id}`);
    } catch (error) {
      console.error("Error creating post:", error);
      alert("Error creating post. Please try again.");
    } finally { setLoading(false); }
  };
  \<close>
  The random token and the store's answer are arguments.  The result is the stored row
  \<open>data\<close>, or the error kind.  The flags \<^verbatim>\<open>loading\<close> and \<^verbatim>\<open>saving\<close> of the pages
  only drive the display and are left out.
\<close>

definition CreatePost_handleSubmit ::
  "string \<Rightarrow> (ident \<times> timestamp) option \<Rightarrow> create_form \<Rightarrow> store \<Rightarrow>
   (error + post) \<times> effect list \<times> store" where
  "CreatePost_handleSubmit userId reply formData db =
     (if trim (title_cf formData) = [] then
        (Inl ValidationError, [Alert ''Title is required''], db)
      else
        (case insert_post (title_cf formData) (content_cf formData) (image_url_cf formData)
                (secret_key_cf formData) userId None (flags_cf formData) reply db of
           (Some data, db') \<Rightarrow> (Inr data, [Navigate (''/post/'' @ id_post data)], db')
         | (None, db') \<Rightarrow>
             (Inl StoreError,
              [ConsoleError ''Error creating post:'',
               Alert ''Error creating post. Please try again.''], db')))"

section \<open>Editing a post\<close>

record edit_form =
  title_ef :: string
  content_ef :: string
  image_url_ef :: string
  flags_ef :: "string list"

record edit_page =
  id_ep :: "ident option"
  post_ep :: "post option"
  formData_ep :: edit_form
  secretKey_ep :: string

text \<open>
  \<^verbatim>\<open>
  useEffect(() => { if (id) { fetchPost(); } }, [id]);
  const fetchPost = async () => {
    try {
      const { data, error } = await supabase.from("posts").select("*").eq("id", id).single();
      if (error) throw error;
      setPost(data);
      setFormData({ title: data.title, content: data.content || "",
                    image_url: data.image_url || "", flags: data.flags || [] });
    } catch (error) { console.error("Error fetching post:", error); }
    finally { setLoading(false); }
  };
  \<close>
\<close>

definition EditPost_fetchPost :: "bool \<Rightarrow> edit_page \<Rightarrow> store \<Rightarrow> effect list \<times> edit_page" where
  "EditPost_fetchPost ok pg db =
     (case id_ep pg of
        None \<Rightarrow> ([], pg)
      | Some i \<Rightarrow>
          if i = [] then ([], pg)
          else
            (case select_post i ok db of
               None \<Rightarrow> ([ConsoleError ''Error fetching post:''], pg)
             | Some data \<Rightarrow>
                 ([], pg\<lparr>post_ep := Some data,
                         formData_ep :=
                           \<lparr>title_ef = title data,
                            content_ef = (case content data of None \<Rightarrow> [] | Some c \<Rightarrow> c),
                            image_url_ef = (case image_url data of None \<Rightarrow> [] | Some u \<Rightarrow> u),
                            flags_ef = (case flags data of None \<Rightarrow> [] | Some f \<Rightarrow> f)\<rparr>\<rparr>)))"

text \<open>
  \<^verbatim>\<open>
  const handleSubmit = async (e: React.FormEvent) => {
    e.preventDefault();
    if (!post || secretKey !== post.secret_key) { alert("Invalid secret key"); return; }
    if (!formData.title.trim()) { alert("Title is required"); return; }
    setSaving(true);
    try {
      const { error } = await supabase.from("posts")
        .update({ title: formData.title, content: formData.content,
                  image_url: formData.image_url, flags: formData.flags })
        .eq("id", post.id);
      if (error) throw error;
      navigate(`/post/${post.id}`);
    } catch (error) {
      console.error("Error updating post:", error);
      alert("Error updating post. Please try again.");
    } finally { setSaving(false); }
  };
  \<close>
  \<^verbatim>\<open>secretKey\<close> is always a string, so \<^verbatim>\<open>secretKey !== post.secret_key\<close> holds when
  the stored key is \<open>null\<close>.
\<close>

definition EditPost_handleSubmit ::
  "bool \<Rightarrow> edit_page \<Rightarrow> store \<Rightarrow> (error + unit) \<times> effect list \<times> store" where
  "EditPost_handleSubmit ok pg db =
     (case post_ep pg of
        None \<Rightarrow> (Inl UnauthorizedError, [Alert ''Invalid secret key''], db)
      | Some post \<Rightarrow>
          if Some (secretKey_ep pg) \<noteq> secret_key post then
            (Inl UnauthorizedError, [Alert ''Invalid secret key''], db)
          else if trim (title_ef (formData_ep pg)) = [] then
            (Inl ValidationError, [Alert ''Title is required''], db)
          else
            (case update_posts
                    (\<lambda>r. r\<lparr>title := title_ef (formData_ep pg),
                            content := Some (content_ef (formData_ep pg)),
                            image_url := Some (image_url_ef (formData_ep pg)),
                            flags := Some (flags_ef (formData_ep pg))\<rparr>)
                    (id_post post) ok db of
               (True, db') \<Rightarrow> (Inr (), [Navigate (''/post/'' @ id_post post)], db')
             | (False, db') \<Rightarrow>
                 (Inl StoreError,
                  [ConsoleError ''Error updating post:'',
                   Alert ''Error updating post. Please try again.''], db')))"

section \<open>The page of one post\<close>

record post_page =
  id_pp :: "ident option"
  post_pp :: "post option"
  comments_pp :: "comment list"
  newComment_pp :: string
  secretKey_pp :: string

text \<open>
  \<^verbatim>\<open>
  const fetchPost = async () => {
    try {
      const { data, error } = await supabase.from("posts").select("*").eq("id", id).single();
      if (error) throw error;
      setPost(data);
    } catch (error) { console.error("Error fetching post:", error); }
    finally { setLoading(false); }
  };
  \<close>
  called from the effect \<^verbatim>\<open>if (id) { fetchPost(); fetchComments(); }\<close>.
\<close>

definition PostPage_fetchPost :: "bool \<Rightarrow> post_page \<Rightarrow> store \<Rightarrow> effect list \<times> post_page" where
  "PostPage_fetchPost ok pg db =
     (case id_pp pg of
        None \<Rightarrow> ([], pg)
      | Some i \<Rightarrow>
          if i = [] then ([], pg)
          else
            (case select_post i ok db of
               None \<Rightarrow> ([ConsoleError ''Error fetching post:''], pg)
             | Some data \<Rightarrow> ([], pg\<lparr>post_pp := Some data\<rparr>)))"



text \<open>
  \<^verbatim>\<open>
  const handleAddComment = async (e: React.FormEvent) => {
    e.preventDefault();
    if (!newComment.trim()) return;
    try {
      const userId = Math.random().toString(36).substring(2, 15);
      const { data, error } = await supabase.from("comments")
        .insert([{ post_id: id, content: newComment, user_id: userId }])
        .select().single();
      if (error) throw error;
      setComments([...comments, data]);
      setNewComment("");
    } catch (error) { console.error("Error adding comment:", error); }
  };
  \<close>
\<close>

definition handleAddComment ::
  "string \<Rightarrow> (ident \<times> timestamp) option \<Rightarrow> post_page \<Rightarrow> store \<Rightarrow>
   effect list \<times> post_page \<times> store" where
  "handleAddComment userId reply pg db =
     (if trim (newComment_pp pg) = [] then ([], pg, db)
      else
        (case insert_comment (id_pp pg) (newComment_pp pg) userId reply db of
           (Some data, db') \<Rightarrow>
             ([], pg\<lparr>comments_pp := comments_pp pg @ [data], newComment_pp := []\<rparr>, db')
         | (None, db') \<Rightarrow> ([ConsoleError ''Error adding comment:''], pg, db')))"

text \<open>
  \<^verbatim>\<open>
  const handleDelete = async () => {
    if (!post || secretKey !== post.secret_key) { alert("Invalid secret key"); return; }
    try {
      // First delete all comments associated with this post
      const { error: commentsError } = await supabase.from("comments")
        .delete().eq("post_id", post.id);
      if (commentsError) {
        console.error("Error deleting comments:", commentsError);
        // Continue with post deletion even if comment deletion fails
      }
      // Then delete the post
      const { error: postError } = await supabase.from("posts").delete().eq("id", post.id);
      if (postError) throw postError;
      alert("Post and all associated comments deleted successfully!");
      navigate("/");
    } catch (error) {
      console.error("Error deleting post:", error);
      alert("Failed to delete post. Please try again.");
    }
  };
  \<close>
  The first answer is the store's to the deletion of the comments, the second its answer
  to the deletion of the post.
\<close>

definition handleDelete ::
  "bool \<Rightarrow> bool \<Rightarrow> post_page \<Rightarrow> store \<Rightarrow> (error + unit) \<times> effect list \<times> store" where
  "handleDelete okComments okPost pg db =
     (case post_pp pg of
        None \<Rightarrow> (Inl UnauthorizedError, [Alert ''Invalid secret key''], db)
      | Some post \<Rightarrow>
          if Some (secretKey_pp pg) \<noteq> secret_key post then
            (Inl UnauthorizedError, [Alert ''Invalid secret key''], db)
          else
            (case delete_comments (id_post post) okComments db of
               (commentsDone, db1) \<Rightarrow>
                 (let logged = (if commentsDone then [] else [ConsoleError ''Error deleting comments:''])
                  in case delete_posts (id_post post) okPost db1 of
                       (True, db2) \<Rightarrow>
                         (Inr (),
                          logged @ [Alert ''Post and all associated comments deleted successfully!'',
                                    Navigate ''/''], db2)
                     | (False, db2) \<Rightarrow>
                         (Inl StoreError,
                          logged @ [ConsoleError ''Error deleting post:'',
                                    Alert ''Failed to delete post. Please try again.''], db2))))"

section \<open>The home feed\<close>

text \<open>
  \<^verbatim>\<open>
  const filteredPosts = posts.filter((post) => {
    const matchesSearch = post.title.toLowerCase().includes(searchTerm.toLowerCase());
    const matchesFlag = !filterFlag || (post.flags && post.flags.includes(filterFlag));
    return matchesSearch && matchesFlag;
  });
  \<close>
  The empty string is the one falsy string, and \<open>null\<close> flags are falsy.
\<close>

definition filteredPosts :: "post list \<Rightarrow> string \<Rightarrow> string \<Rightarrow> post list" where
  "filteredPosts ps searchTerm filterFlag =
     filter
       (\<lambda>post.
          let matchesSearch = str_includes (toLowerCase (title post)) (toLowerCase searchTerm);
              matchesFlag =
                (filterFlag = [] \<or>
                 (case flags post of None \<Rightarrow> False | Some fs \<Rightarrow> List.member fs filterFlag))
          in matchesSearch \<and> matchesFlag)
       ps"

section \<open>The specification's wording of the truncation\<close>


section \<open>A small forum\<close>

text \<open>Two posts, one with the secret key \<open>abc\<close> and one created with the key field
  left empty, and a comment on each; the theorems below are tried on them.\<close>

definition news_post :: post where
  "news_post =
     \<lparr>id_post = ''p1'', title = ''Transfer news'', content = Some ''Who is coming in?'',
      image_url = Some [], upvotes = 0, created_at = Some 1704067200000,
      secret_key = Some ''abc'', user_id = ''k3v9x2'', flags = Some [''News''],
      repost_id = None\<rparr>"

definition open_post :: post where
  "open_post =
     \<lparr>id_post = ''p2'', title = ''Match thread'', content = Some ''Kick-off at three'',
      image_url = Some [], upvotes = 4, created_at = Some 1704070800000,
      secret_key = Some [], user_id = ''q7w1e5'', flags = Some [''Discussion''],
      repost_id = None\<rparr>"

definition great_signing :: comment where
  "great_signing =
     \<lparr>id_comment = ''c1'', post_id = Some ''p1'', content_comment = ''Great signing!'',
      created_at_comment = Some 1704067260000, user_id_comment = ''m4q8z0''\<rparr>"

definition come_on :: comment where
  "come_on =
     \<lparr>id_comment = ''c2'', post_id = Some ''p2'', content_comment = ''Come on!'',
      created_at_comment = Some 1704070860000, user_id_comment = ''t2y6u3''\<rparr>"

definition forum :: store where
  "forum = \<lparr>posts = [news_post, open_post], comments = [great_signing, come_on]\<rparr>"

text \<open>The edit page and the post page, loaded with a post, with the key typed in.\<close>

definition editing :: "post \<Rightarrow> string \<Rightarrow> string \<Rightarrow> edit_page" where
  "editing p newTitle key =
     \<lparr>id_ep = Some (id_post p), post_ep = Some p,
      formData_ep = \<lparr>title_ef = newTitle, content_ef = ''Done deal'', image_url_ef = [],
                      flags_ef = [''News'', ''Opinion'']\<rparr>,
      secretKey_ep = key\<rparr>"

definition viewing :: "post \<Rightarrow> string \<Rightarrow> string \<Rightarrow> post_page" where
  "viewing p draft key =
     \<lparr>id_pp = Some (id_post p), post_pp = Some p, comments_pp = [], newComment_pp = draft,
      secretKey_pp = key\<rparr>"

definition new_post_form :: "string \<Rightarrow> create_form" where
  "new_post_form t =
     \<lparr>title_cf = t, content_cf = ''Any news?'', image_url_cf = [], secret_key_cf = ''abc'',
      flags_cf = [''Question'']\<rparr>"

section \<open>Facts about the string and array methods\<close>

lemma str_split_not_Nil: "str_split sep s \<noteq> []"
  by (induction s) auto

text \<open>The word count is one more than the number of spaces.\<close>

lemma length_str_split: "length (str_split sep s) = Suc (count_list s sep)"
proof (induction s)
  case Nil
  show ?case by simp
next
  case (Cons c cs)
  have "str_split sep cs \<noteq> []" by (rule str_split_not_Nil)
  then have "length (tl (str_split sep cs)) = count_list cs sep"
    using Cons.IH by simp
  then show ?case using Cons.IH by simp
qed

lemma arr_join_Cons: "ws \<noteq> [] \<Longrightarrow> arr_join sep (w # ws) = w @ sep @ arr_join sep ws"
  by (cases ws) auto

text \<open>Joining the words with single spaces gives the text back.\<close>

lemma join_split: "arr_join [sep] (str_split sep s) = s"
proof (induction s)
  case Nil
  show ?case by simp
next
  case (Cons c cs)
  obtain w ws where ws: "str_split sep cs = w # ws"
    using str_split_not_Nil [of sep cs] by (cases "str_split sep cs") auto
  show ?case
  proof (cases "c = sep")
    case True
    then show ?thesis using Cons.IH by (simp add: arr_join_Cons str_split_not_Nil)
  next
    case False
    then show ?thesis using Cons.IH ws by (cases ws) auto
  qed
qed

lemma sep_notin_piece: "w \<in> set (str_split sep s) \<Longrightarrow> sep \<notin> set w"
proof (induction s arbitrary: w)
  case Nil
  then show ?case by simp
next
  case (Cons c cs)
  obtain v vs where vs: "str_split sep cs = v # vs"
    using str_split_not_Nil [of sep cs] by (cases "str_split sep cs") auto
  show ?case
  proof (cases "c = sep")
    case True
    then show ?thesis using Cons by auto
  next
    case False
    then show ?thesis using Cons vs by auto
  qed
qed


lemma arr_slice0_neg: "e < 0 \<Longrightarrow> arr_slice0 xs e = take (length xs - nat (- e)) xs"
proof -
  assume neg: "e < 0"
  have "nat (max (int (length xs) + e) 0) = length xs - nat (- e)"
    using neg by (simp add: max_def) linarith
  then show ?thesis
    using neg by (simp add: arr_slice0_def Let_def)
qed

lemma str_includes_Nil: "str_includes s []"
  by (cases s) auto

section \<open>Truncating the text of a post\<close>

text \<open>With a negative \<open>maxWords\<close> the text is always cut, and what is kept is all but
  the last \<open>- maxWords\<close> words: \<^verbatim>\<open>slice\<close> counts a negative end from the back.\<close>

lemma truncateText_negative:
  "maxWords < 0 \<Longrightarrow>
   truncateText text maxWords =
     arr_join '' ''
       (take (length (str_split CHR '' '' text) - nat (- maxWords)) (str_split CHR '' '' text))
     @ ''...''"
  by (simp add: truncateText_def Let_def arr_slice0_neg)




section \<open>The age of a post\<close>











section \<open>Filtering the feed\<close>

text \<open>
  Claim C9: filtering the feed twice with the same search term and category gives what
  filtering once gives, and with the empty search term and the empty category the feed
  comes back as it was, in its order.
\<close>

theorem filteredPosts_idempotent:
  "filteredPosts (filteredPosts ps searchTerm filterFlag) searchTerm filterFlag =
     filteredPosts ps searchTerm filterFlag \<and>
   filteredPosts ps [] [] = ps"
  by (simp add: filteredPosts_def toLowerCase_def str_includes_Nil)

section \<open>The secret key\<close>






section \<open>Editing with the wrong key\<close>

text \<open>
  Claim C2: when the key supplied is not string-equal to the stored secret key of the
  post, the update writes nothing, whatever the form holds: the tables are returned as
  they were, and the operation signals \<^const>\<open>UnauthorizedError\<close>.
\<close>

theorem EditPost_wrong_key_no_write:
  assumes "post_ep pg = Some p" and "secret_key p \<noteq> Some (secretKey_ep pg)"
  shows "EditPost_handleSubmit ok pg db =
           (Inl UnauthorizedError, [Alert ''Invalid secret key''], db)"
  using assms by (auto simp: EditPost_handleSubmit_def)

text \<open>The comparison is case-sensitive: \<open>ABC\<close> does not open a post locked with \<open>abc\<close>.\<close>

theorem EditPost_wrong_key_no_write_witness:
  "post_ep (editing news_post ''Hacked'' ''ABC'') = Some news_post \<and>
   secret_key news_post \<noteq> Some (secretKey_ep (editing news_post ''Hacked'' ''ABC'')) \<and>
   EditPost_handleSubmit True (editing news_post ''Hacked'' ''ABC'') forum =
     (Inl UnauthorizedError, [Alert ''Invalid secret key''], forum)"
proof -
  have e: "post_ep (editing news_post ''Hacked'' ''ABC'') = Some news_post"
    by (simp add: editing_def)
  have k: "secret_key news_post \<noteq> Some (secretKey_ep (editing news_post ''Hacked'' ''ABC''))"
    by (simp add: editing_def news_post_def)
  show ?thesis
    using EditPost_wrong_key_no_write [OF e k, of True forum] e k by simp
qed

section \<open>Deleting a post and its comments\<close>

text \<open>
  Claim C3: with the matching secret key the delete first removes every comment whose
  \<open>post_id\<close> is the post's \<open>id\<close> and then the post.  When the removal of the comments
  fails, that error is logged to the console, the post is removed all the same and the
  operation reports success.  The comments go first: when it is the removal of the post
  that fails, the comments are gone already.  For all answers of the store, the tables
  left are those of the post's removal applied after the comments' removal.
\<close>

theorem handleDelete_cascade:
  assumes "post_pp pg = Some p" and "secret_key p = Some (secretKey_pp pg)"
  shows "handleDelete True True pg db =
           (Inr (),
            [Alert ''Post and all associated comments deleted successfully!'', Navigate ''/''],
            db\<lparr>posts := filter (\<lambda>r. id_post r \<noteq> id_post p) (posts db),
               comments := filter (\<lambda>c. post_id c \<noteq> Some (id_post p)) (comments db)\<rparr>) \<and>
         handleDelete False True pg db =
           (Inr (),
            [ConsoleError ''Error deleting comments:'',
             Alert ''Post and all associated comments deleted successfully!'', Navigate ''/''],
            db\<lparr>posts := filter (\<lambda>r. id_post r \<noteq> id_post p) (posts db)\<rparr>) \<and>
         handleDelete True False pg db =
           (Inl StoreError,
            [ConsoleError ''Error deleting post:'',
             Alert ''Failed to delete post. Please try again.''],
            db\<lparr>comments := filter (\<lambda>c. post_id c \<noteq> Some (id_post p)) (comments db)\<rparr>) \<and>
         snd (snd (handleDelete okComments okPost pg db)) =
           snd (delete_posts (id_post p) okPost
                  (snd (delete_comments (id_post p) okComments db)))"
  using assms
  by (auto simp: handleDelete_def delete_comments_def delete_posts_def Let_def)

theorem handleDelete_cascade_witness:
  "post_pp (viewing news_post [] ''abc'') = Some news_post \<and>
   secret_key news_post = Some (secretKey_pp (viewing news_post [] ''abc'')) \<and>
   handleDelete True True (viewing news_post [] ''abc'') forum =
     (Inr (),
      [Alert ''Post and all associated comments deleted successfully!'', Navigate ''/''],
      \<lparr>posts = [open_post], comments = [come_on]\<rparr>) \<and>
   handleDelete False True (viewing news_post [] ''abc'') forum =
     (Inr (),
      [ConsoleError ''Error deleting comments:'',
       Alert ''Post and all associated comments deleted successfully!'', Navigate ''/''],
      \<lparr>posts = [open_post], comments = [great_signing, come_on]\<rparr>)"
proof -
  have g: "post_pp (viewing news_post [] ''abc'') = Some news_post"
    by (simp add: viewing_def)
  have k: "secret_key news_post = Some (secretKey_pp (viewing news_post [] ''abc''))"
    by (simp add: viewing_def news_post_def)
  have ids: "id_post news_post = ''p1''" "id_post open_post = ''p2''"
    "post_id great_signing = Some ''p1''" "post_id come_on = Some ''p2''"
    by (simp_all add: news_post_def open_post_def great_signing_def come_on_def)
  show ?thesis
    using handleDelete_cascade [OF g k, of forum] g k
    by (simp add: forum_def ids)
qed

section \<open>Creating a post: the title check\<close>

text \<open>
  Claim C4, as the code has it: a title that is empty after trimming is refused with
  \<^const>\<open>ValidationError\<close> and no row is inserted.  A title that is not empty after
  trimming passes the check; the post is then created whenever the store performs the
  insert, and the stored row that comes back has \<open>upvotes\<close> 0 and \<open>created_at\<close> set.
  When the store answers the insert with an error the operation signals
  \<^const>\<open>StoreError\<close> and the tables are as they were.
\<close>

theorem CreatePost_title_check:
  "(trim (title_cf f) = [] \<longrightarrow>
      CreatePost_handleSubmit u reply f db =
        (Inl ValidationError, [Alert ''Title is required''], db)) \<and>
   (trim (title_cf f) \<noteq> [] \<longrightarrow>
      (\<exists>row. CreatePost_handleSubmit u (Some (i, t)) f db =
               (Inr row, [Navigate (''/post/'' @ i)], db\<lparr>posts := posts db @ [row]\<rparr>) \<and>
             id_post row = i \<and> upvotes row = 0 \<and> created_at row = Some t) \<and>
      CreatePost_handleSubmit u None f db =
        (Inl StoreError,
         [ConsoleError ''Error creating post:'', Alert ''Error creating post. Please try again.''],
         db))"
  by (simp add: CreatePost_handleSubmit_def insert_post_def Let_def)

theorem CreatePost_title_check_witness:
  "trim (title_cf (new_post_form '' '')) = [] \<and>
   CreatePost_handleSubmit ''r4nd0m'' (Some (''p3'', 1704074400000)) (new_post_form '' '') forum =
     (Inl ValidationError, [Alert ''Title is required''], forum) \<and>
   trim (title_cf (new_post_form ''Lineup?'')) \<noteq> [] \<and>
   (\<exists>row. CreatePost_handleSubmit ''r4nd0m'' (Some (''p3'', 1704074400000))
             (new_post_form ''Lineup?'') forum =
             (Inr row, [Navigate ''/post/p3''], forum\<lparr>posts := posts forum @ [row]\<rparr>) \<and>
           id_post row = ''p3'' \<and> upvotes row = 0 \<and> created_at row = Some 1704074400000)"
proof -
  have b: "trim (title_cf (new_post_form '' '')) = []"
    by (simp add: new_post_form_def trim_def isWhiteSpace_def)
  have n: "trim (title_cf (new_post_form ''Lineup?'')) \<noteq> []"
    by (simp add: new_post_form_def trim_def isWhiteSpace_def)
  show ?thesis
    using CreatePost_title_check
            [of "new_post_form '' ''" "''r4nd0m''" "Some (''p3'', 1704074400000)" forum]
          CreatePost_title_check
            [of "new_post_form ''Lineup?''" "''r4nd0m''" None forum "''p3''" 1704074400000]
          b n
    by simp
qed

text \<open>The title \<open>Lineup?\<close> is not empty after trimming, the store answers the insert
  with an error, and the post is not created.\<close>

theorem CreatePost_store_error_counterexample:
  "trim (title_cf (new_post_form ''Lineup?'')) \<noteq> [] \<and>
   CreatePost_handleSubmit ''r4nd0m'' None (new_post_form ''Lineup?'') forum =
     (Inl StoreError,
      [ConsoleError ''Error creating post:'', Alert ''Error creating post. Please try again.''],
      forum)"
  by (simp add: CreatePost_handleSubmit_def insert_post_def new_post_form_def trim_def
        isWhiteSpace_def)

section \<open>Upvoting\<close>

lemma select_post_Some_iff:
  "(select_post i True db = Some p) = (filter (\<lambda>r. id_post r = i) (posts db) = [p])"
  by (auto simp: select_post_def split: list.splits)

text \<open>A page that has loaded its post shows the one stored row with that identifier.\<close>

lemma PostPage_fetchPost_loaded:
  assumes "PostPage_fetchPost True pg db = (effs, pg')" and "post_pp pg = None"
    and "post_pp pg' = Some p"
  shows "select_post (id_post p) True db = Some p"
proof -
  from assms obtain i where i: "id_pp pg = Some i" "i \<noteq> []"
    by (auto simp: PostPage_fetchPost_def split: option.splits if_splits)
  with assms have sel: "select_post i True db = Some p"
    by (auto simp: PostPage_fetchPost_def split: option.splits)
  then have "filter (\<lambda>r. id_post r = i) (posts db) = [p]"
    by (simp add: select_post_Some_iff)
  then have "p \<in> set (filter (\<lambda>r. id_post r = i) (posts db))"
    by simp
  then have "id_post p = i"
    by simp
  with sel show ?thesis by simp
qed









section \<open>What a successful edit leaves alone\<close>

text \<open>The edit page, once loaded, holds the stored row and a form filled from it.\<close>

lemma EditPost_fetchPost_loaded:
  assumes "EditPost_fetchPost True pg db = (effs, pg')" and "post_ep pg = None"
    and "post_ep pg' = Some p"
  shows "select_post (id_post p) True db = Some p \<and> title_ef (formData_ep pg') = title p"
proof -
  from assms obtain i where i: "id_ep pg = Some i" "i \<noteq> []"
    by (auto simp: EditPost_fetchPost_def split: option.splits if_splits)
  with assms have sel: "select_post i True db = Some p"
    by (auto simp: EditPost_fetchPost_def split: option.splits)
  then have "filter (\<lambda>r. id_post r = i) (posts db) = [p]"
    by (simp add: select_post_Some_iff)
  then have "p \<in> set (filter (\<lambda>r. id_post r = i) (posts db))"
    by simp
  then have "id_post p = i"
    by simp
  moreover have "title_ef (formData_ep pg') = title p"
    using assms i sel by (auto simp: EditPost_fetchPost_def)
  ultimately show ?thesis using sel by simp
qed

text \<open>
  Claim C8: when the update succeeds, the rows with the post's \<open>id\<close> get the title,
  content, image address and flags of the form and nothing else: in every row the
  columns \<open>id\<close>, \<open>created_at\<close>, \<open>user_id\<close>, \<open>secret_key\<close> and \<open>upvotes\<close> (and
  \<open>repost_id\<close>) are what they were, the other rows are untouched, and so are the
  comments.
\<close>

theorem EditPost_success_frame:
  assumes "EditPost_handleSubmit ok pg db = (Inr u, effs, db')"
  shows "\<exists>p. post_ep pg = Some p \<and>
           posts db' =
             map (\<lambda>r. if id_post r = id_post p
                       then r\<lparr>title := title_ef (formData_ep pg),
                              content := Some (content_ef (formData_ep pg)),
                              image_url := Some (image_url_ef (formData_ep pg)),
                              flags := Some (flags_ef (formData_ep pg))\<rparr>
                       else r) (posts db) \<and>
           comments db' = comments db \<and>
           list_all2 (\<lambda>r r'. id_post r' = id_post r \<and> created_at r' = created_at r \<and>
                              user_id r' = user_id r \<and> secret_key r' = secret_key r \<and>
                              upvotes r' = upvotes r \<and> repost_id r' = repost_id r)
             (posts db) (posts db')"
  using assms
  by (auto simp: EditPost_handleSubmit_def update_posts_def list_all2_map2 list_all2_same
           split: option.splits if_splits)

theorem EditPost_success_frame_witness:
  "EditPost_handleSubmit True (editing news_post ''Transfer news, confirmed'' ''abc'') forum =
     (Inr (), [Navigate ''/post/p1''],
      \<lparr>posts = [news_post\<lparr>title := ''Transfer news, confirmed'', content := Some ''Done deal'',
                           image_url := Some [], flags := Some [''News'', ''Opinion'']\<rparr>,
                 open_post],
       comments = [great_signing, come_on]\<rparr>) \<and>
   list_all2 (\<lambda>r r'. id_post r' = id_post r \<and> created_at r' = created_at r \<and>
                      user_id r' = user_id r \<and> secret_key r' = secret_key r \<and>
                      upvotes r' = upvotes r \<and> repost_id r' = repost_id r)
     (posts forum)
     [news_post\<lparr>title := ''Transfer news, confirmed'', content := Some ''Done deal'',
                image_url := Some [], flags := Some [''News'', ''Opinion'']\<rparr>,
      open_post]"
proof -
  have run:
    "EditPost_handleSubmit True (editing news_post ''Transfer news, confirmed'' ''abc'') forum =
       (Inr (), [Navigate ''/post/p1''],
        \<lparr>posts = [news_post\<lparr>title := ''Transfer news, confirmed'', content := Some ''Done deal'',
                             image_url := Some [], flags := Some [''News'', ''Opinion'']\<rparr>,
                   open_post],
         comments = [great_signing, come_on]\<rparr>)"
    by (simp add: EditPost_handleSubmit_def update_posts_def editing_def forum_def
          news_post_def open_post_def trim_def isWhiteSpace_def)
  from EditPost_success_frame [OF run]
  have "list_all2 (\<lambda>r r'. id_post r' = id_post r \<and> created_at r' = created_at r \<and>
                      user_id r' = user_id r \<and> secret_key r' = secret_key r \<and>
                      upvotes r' = upvotes r \<and> repost_id r' = repost_id r)
     (posts forum)
     [news_post\<lparr>title := ''Transfer news, confirmed'', content := Some ''Done deal'',
                image_url := Some [], flags := Some [''News'', ''Opinion'']\<rparr>,
      open_post]"
    by auto
  with run show ?thesis by blast
qed

section \<open>Trimming is a check, not a change\<close>

lemma CreatePost_stores_title:
  assumes "trim (title_cf f) \<noteq> []"
  shows "\<exists>row. CreatePost_handleSubmit u (Some (i, t)) f db =
               (Inr row, [Navigate (''/post/'' @ i)], db\<lparr>posts := posts db @ [row]\<rparr>) \<and>
             title row = title_cf f"
  using assms by (simp add: CreatePost_handleSubmit_def insert_post_def Let_def)

lemma handleAddComment_stores_content:
  assumes "trim (newComment_pp pg) \<noteq> []"
  shows "\<exists>c. handleAddComment u (Some (j, t)) pg db =
               ([], pg\<lparr>comments_pp := comments_pp pg @ [c], newComment_pp := []\<rparr>,
                db\<lparr>comments := comments db @ [c]\<rparr>) \<and>
             content_comment c = newComment_pp pg"
proof -
  define c where
    "c = \<lparr>id_comment = j, post_id = id_pp pg, content_comment = newComment_pp pg,
          created_at_comment = Some t, user_id_comment = u\<rparr>"
  have "handleAddComment u (Some (j, t)) pg db =
          ([], pg\<lparr>comments_pp := comments_pp pg @ [c], newComment_pp := []\<rparr>,
           db\<lparr>comments := comments db @ [c]\<rparr>)"
    using assms by (simp add: handleAddComment_def insert_comment_def Let_def c_def)
  moreover have "content_comment c = newComment_pp pg"
    by (simp add: c_def)
  ultimately show ?thesis by blast
qed

text \<open>When the store answers the insert with an error, nothing is stored.\<close>

lemma insert_refused_stores_nothing:
  "snd (snd (CreatePost_handleSubmit u None f db)) = db \<and>
   snd (snd (handleAddComment u' None pg db)) = db"
  by (simp add: CreatePost_handleSubmit_def insert_post_def handleAddComment_def
        insert_comment_def)

text \<open>
  Claim C10: the trimmed title and the trimmed comment only decide whether the text is
  there.  For a title that is not empty after trimming, the row a post is created with
  holds the title as typed, spaces at its ends included; and for a comment that is not
  empty after trimming, the stored comment holds the text as typed.  (Nothing is stored
  when the store answers the insert with an error.)
\<close>

theorem stored_text_verbatim:
  "(trim (title_cf f) \<noteq> [] \<longrightarrow>
      (\<exists>row. CreatePost_handleSubmit u (Some (i, t)) f db =
               (Inr row, [Navigate (''/post/'' @ i)], db\<lparr>posts := posts db @ [row]\<rparr>) \<and>
             title row = title_cf f) \<and>
      snd (snd (CreatePost_handleSubmit u None f db)) = db) \<and>
   (trim (newComment_pp pg) \<noteq> [] \<longrightarrow>
      (\<exists>c. handleAddComment u' (Some (j, t')) pg db =
               ([], pg\<lparr>comments_pp := comments_pp pg @ [c], newComment_pp := []\<rparr>,
                db\<lparr>comments := comments db @ [c]\<rparr>) \<and>
             content_comment c = newComment_pp pg) \<and>
      snd (snd (handleAddComment u' None pg db)) = db)"
  using CreatePost_stores_title [of f u i t db]
        handleAddComment_stores_content [of pg u' j t' db]
        insert_refused_stores_nothing [of u f db u' pg]
  by blast

text \<open>A title and a comment typed with spaces around them: the spaces are stored.\<close>

theorem stored_text_verbatim_witness:
  "trim '' Lineup? '' = ''Lineup?'' \<and>
   (\<exists>row. CreatePost_handleSubmit ''r4nd0m'' (Some (''p3'', 1704074400000))
             (new_post_form '' Lineup? '') forum =
             (Inr row, [Navigate ''/post/p3''], forum\<lparr>posts := posts forum @ [row]\<rparr>) \<and>
           title row = '' Lineup? '') \<and>
   trim '' Well played '' = ''Well played'' \<and>
   (\<exists>c. handleAddComment ''r4nd0m'' (Some (''c3'', 1704074460000))
           (viewing news_post '' Well played '' []) forum =
           ([], (viewing news_post '' Well played '' [])
                  \<lparr>comments_pp := [c], newComment_pp := []\<rparr>,
            forum\<lparr>comments := comments forum @ [c]\<rparr>) \<and>
         content_comment c = '' Well played '')"
proof -
  have t: "trim '' Lineup? '' = ''Lineup?''" and d: "trim '' Well played '' = ''Well played''"
    by (simp_all add: trim_def isWhiteSpace_def)
  have f: "title_cf (new_post_form '' Lineup? '') = '' Lineup? ''"
    by (simp add: new_post_form_def)
  have g: "newComment_pp (viewing news_post '' Well played '' []) = '' Well played ''"
    "comments_pp (viewing news_post '' Well played '' []) = []"
    by (simp_all add: viewing_def)
  show ?thesis
    using stored_text_verbatim
            [of "new_post_form '' Lineup? ''" "''r4nd0m''" "''p3''" 1704074400000 forum
                "viewing news_post '' Well played '' []" "''r4nd0m''" "''c3''" 1704074460000]
          t d
    by (simp add: f g)
qed

end
